theory Spec2Isabelle
  imports Complex_Main
begin

section \<open>Results and errors\<close>

text \<open>
  The Python program of \<^verbatim>\<open>main.py\<close> is embedded as HOL functions. A call that can
  raise returns \<open>error + 'a\<close>, with \<open>Inl\<close> for the exception. Tensor entries are real
  numbers: rounding of 32-bit floats is not modelled. Where torch would silently produce
  NaN (a division of zero by zero) the model stops with \<open>NotANumber\<close>, and where a
  function is called on shapes that the model does not cover it stops with
  \<open>NotModelled\<close>.
\<close>

datatype error = IndexError | KeyError | RuntimeError | NotANumber | NotModelled

section \<open>Dictionaries in insertion order\<close>

text \<open>
  A Python \<^verbatim>\<open>dict\<close> keeps its keys in insertion order and has no duplicate key: an
  association list that is only extended for a missing key. \<open>map_of\<close> is the lookup and
  \<open>length\<close> is \<^verbatim>\<open>len\<close>.
\<close>

fun dict_set :: "('k \<times> 'v) list \<Rightarrow> 'k \<Rightarrow> 'v \<Rightarrow> ('k \<times> 'v) list" where
  "dict_set [] k x = [(k, x)]"
| "dict_set ((k', x') # d) k x = (if k' = k then (k', x) # d else (k', x') # dict_set d k x)"

text \<open>
  \<^verbatim>\<open>self.w2i = defaultdict(lambda: len(self.w2i))\<close>: reading a missing key stores the
  current size under it and returns it.
\<close>

definition w2i_get :: "(string \<times> nat) list \<Rightarrow> string \<Rightarrow> (string \<times> nat) list \<times> nat" where
  "w2i_get d k = (case map_of d k of
                    Some i \<Rightarrow> (d, i)
                  | None \<Rightarrow> (d @ [(k, length d)], length d))"

text \<open>\<^verbatim>\<open>self.freq = defaultdict(int)\<close> and \<^verbatim>\<open>self.freq[idx] += 1\<close>.\<close>

definition freq_incr :: "(nat \<times> nat) list \<Rightarrow> nat \<Rightarrow> (nat \<times> nat) list" where
  "freq_incr d idx = dict_set d idx ((case map_of d idx of None \<Rightarrow> 0 | Some c \<Rightarrow> c) + 1)"

section \<open>Corpus\<close>

record Corpus =
  window_size :: nat
  w2i :: "(string \<times> nat) list"
  freq :: "(nat \<times> nat) list"
  UNK :: nat
  BOS :: nat
  EOS :: nat
  vocab_range :: "(string \<times> nat \<times> nat) list"

text \<open>\<^verbatim>\<open>Corpus.__init__\<close>: the three sentinels are interned first, with count 0.\<close>

definition Corpus_init :: "nat \<Rightarrow> Corpus" where
  "Corpus_init ws =
     (let (d0, unk) = w2i_get [] ''<unk>'';
          (d1, bos) = w2i_get d0 ''<s>'';
          (d2, eos) = w2i_get d1 ''</s>'';
          f = dict_set (dict_set (dict_set [] unk 0) bos 0) eos 0
      in \<lparr>window_size = ws, w2i = d2, freq = f, UNK = unk, BOS = bos, EOS = eos,
          vocab_range = []\<rparr>)"

text \<open>\<^verbatim>\<open>indices = [self.w2i[lang + ':' + w] for w in words]\<close>\<close>

fun intern_all :: "(string \<times> nat) list \<Rightarrow> string \<Rightarrow> string list \<Rightarrow> (string \<times> nat) list \<times> nat list" where
  "intern_all d lang [] = (d, [])"
| "intern_all d lang (w # ws) =
     (let (d', i) = w2i_get d (lang @ '':'' @ w);
          (d'', js) = intern_all d' lang ws
      in (d'', i # js))"

text \<open>
  The body of the loop over the lines of \<^verbatim>\<open>Corpus.read\<close>. A line is given as the list
  \<open>words\<close> that \<^verbatim>\<open>line.strip().split()\<close> returns. The comparison is Python's, on
  integers: \<open>2 * window_size - 1\<close> is \<open>-1\<close> for a window of 0.
\<close>

definition read_line :: "string \<Rightarrow> bool \<Rightarrow> Corpus \<Rightarrow> string list \<Rightarrow> Corpus \<times> nat list option" where
  "read_line lang count c words =
     (if int (length words) < 2 * int (window_size c) - 1 then (c, None)
      else
        let (d, indices) = intern_all (w2i c) lang words;
            f = (if count then foldl freq_incr (freq c) indices else freq c)
        in (c\<lparr>w2i := d, freq := f\<rparr>, Some ([BOS c] @ indices @ [EOS c])))"

fun read_loop :: "string \<Rightarrow> bool \<Rightarrow> Corpus \<Rightarrow> string list list \<Rightarrow> Corpus \<times> nat list list" where
  "read_loop lang count c [] = (c, [])"
| "read_loop lang count c (l # ls) =
     (let (c', r) = read_line lang count c l;
          (c'', sents) = read_loop lang count c' ls
      in (c'', (case r of None \<Rightarrow> sents | Some s \<Rightarrow> s # sents)))"

text \<open>
  \<^verbatim>\<open>Corpus.read\<close>, consumed to its end (\<^verbatim>\<open>list(corpus.read(path, lang=lang))\<close>): the
  sentences yielded, and the corpus with the language's range recorded after the loop.
\<close>

definition read :: "Corpus \<Rightarrow> string list list \<Rightarrow> string \<Rightarrow> bool \<Rightarrow> Corpus \<times> nat list list" where
  "read c lines lang count =
     (let vocab_start = length (w2i c);
          (c', sents) = read_loop lang count c lines;
          vocab_end = length (w2i c')
      in (c'\<lparr>vocab_range := dict_set (vocab_range c') lang (vocab_start, vocab_end)\<rparr>, sents))"

definition get_vocabsize :: "Corpus \<Rightarrow> nat" where
  "get_vocabsize c = length (w2i c)"

section \<open>Batch generation\<close>

text \<open>
  A batch is the pair of tensors \<^verbatim>\<open>(contexts, targets)\<close>; the accumulator of
  \<^verbatim>\<open>generate_batch\<close> is \<^verbatim>\<open>(contexts, targets, count)\<close>. The window radius is a
  length (a \<open>nat\<close>); \<^verbatim>\<open>batch_size\<close> is any Python integer.
\<close>

type_synonym batch = "nat list list \<times> nat list"
type_synonym accumulator = "nat list list \<times> nat list \<times> nat"

text \<open>\<^verbatim>\<open>xs[a:b]\<close> for indices that are not negative: the end is clamped.\<close>

definition py_slice :: "nat \<Rightarrow> nat \<Rightarrow> 'a list \<Rightarrow> 'a list" where
  "py_slice a b xs = take (b - a) (drop a xs)"

text \<open>Lines 125 to 126 and the target of line 128.\<close>

definition window_pair :: "nat \<Rightarrow> nat list \<Rightarrow> nat \<Rightarrow> nat list \<times> nat" where
  "window_pair window sent pos =
     (let context = py_slice (pos - window) pos sent;
          context = context @ py_slice (pos + 1) (pos + window + 1) sent
      in (context, sent ! pos))"

text \<open>Lines 127 to 137: append the pair, count it, yield and reset when the batch is full.\<close>

definition accumulate :: "int \<Rightarrow> accumulator \<times> batch list \<Rightarrow> nat list \<times> nat \<Rightarrow> accumulator \<times> batch list" where
  "accumulate batch_size st pr =
     (case st of ((contexts, targets, count), out) \<Rightarrow>
        let contexts = contexts @ [fst pr];
            targets = targets @ [snd pr];
            count = count + 1
        in if int count \<ge> batch_size then (([], [], 0), out @ [(contexts, targets)])
           else ((contexts, targets, count), out))"

definition sent_loop :: "nat \<Rightarrow> int \<Rightarrow> accumulator \<times> batch list \<Rightarrow> nat list \<Rightarrow> accumulator \<times> batch list" where
  "sent_loop window batch_size st sent =
     foldl (\<lambda>st pos. accumulate batch_size st (window_pair window sent pos)) st
       [window ..< length sent - window]"

text \<open>
  The whole run of the generator: the final accumulator, which is dropped, and the batches
  yielded, in order.
\<close>

definition generate_batch_run :: "nat list list \<Rightarrow> nat \<Rightarrow> int \<Rightarrow> accumulator \<times> batch list" where
  "generate_batch_run sents window batch_size =
     foldl (sent_loop window batch_size) (([], [], 0), []) sents"

definition generate_batch :: "nat list list \<Rightarrow> nat \<Rightarrow> int \<Rightarrow> batch list" where
  "generate_batch sents window batch_size = snd (generate_batch_run sents window batch_size)"

text \<open>
  Two notions for reasoning about the loop: the pairs that a list of batches holds, in
  order, and the invariant of the state while \<^verbatim>\<open>batch_size\<close> is positive (the
  accumulator is counted right and not yet full, every batch yielded is full).
\<close>

definition batch_pairs :: "batch list \<Rightarrow> (nat list \<times> nat) list" where
  "batch_pairs out = concat (map (\<lambda>b. zip (fst b) (snd b)) out)"

definition accumulator_inv :: "int \<Rightarrow> accumulator \<times> batch list \<Rightarrow> bool" where
  "accumulator_inv batch_size st =
     (case st of ((contexts, targets, count), out) \<Rightarrow>
        length contexts = count \<and> length targets = count \<and> int count < batch_size \<and>
        list_all (\<lambda>b. length (fst b) = nat batch_size \<and> length (snd b) = nat batch_size) out)"

section \<open>Tensors\<close>

text \<open>
  A vector is a list of reals, a matrix a list of rows, a batch of matrices a list of
  matrices. \<open>bind_err\<close> runs the next statement unless the previous one raised.
\<close>

definition bind_err :: "error + 'a \<Rightarrow> ('a \<Rightarrow> error + 'b) \<Rightarrow> error + 'b" where
  "bind_err r f = (case r of Inl e \<Rightarrow> Inl e | Inr x \<Rightarrow> f x)"

definition vadd :: "real list \<Rightarrow> real list \<Rightarrow> real list" where
  "vadd a b = map2 (+) a b"

definition vsub :: "real list \<Rightarrow> real list \<Rightarrow> real list" where
  "vsub a b = map2 (-) a b"

definition vmul :: "real list \<Rightarrow> real list \<Rightarrow> real list" where
  "vmul a b = map2 (*) a b"

definition smul :: "real \<Rightarrow> real list \<Rightarrow> real list" where
  "smul k a = map (\<lambda>x. k * x) a"

text \<open>\<^verbatim>\<open>t.sum(dim=0)\<close> of \<open>n\<close> rows of width \<open>d\<close>: the zero vector when there is no row.\<close>

definition vsum :: "nat \<Rightarrow> real list list \<Rightarrow> real list" where
  "vsum d rows = foldl vadd (replicate d 0) rows"

text \<open>
  \<^verbatim>\<open>t / k\<close> for a scalar \<open>k\<close>. Dividing by zero gives NaN or an infinity in torch; the
  model stops there, unless the tensor has no entry.
\<close>

definition vdiv :: "real list \<Rightarrow> real \<Rightarrow> error + real list" where
  "vdiv a k = (if a \<noteq> [] \<and> k = 0 then Inl NotANumber else Inr (map (\<lambda>x. x / k) a))"

text \<open>
  \<^verbatim>\<open>nn.Embedding\<close> applied to a vector of ids and to a matrix of ids: an id that is
  not a row of the table raises.
\<close>

definition embedding :: "real list list \<Rightarrow> nat list \<Rightarrow> error + real list list" where
  "embedding W ids = (if list_all (\<lambda>i. i < length W) ids then Inr (map ((!) W) ids) else Inl IndexError)"

definition embedding2 :: "real list list \<Rightarrow> nat list list \<Rightarrow> error + real list list list" where
  "embedding2 W idss =
     (if list_all (list_all (\<lambda>i. i < length W)) idss then Inr (map (map ((!) W)) idss)
      else Inl IndexError)"

text \<open>
  \<^verbatim>\<open>t.mean(dim=1)\<close> of a batch of matrices, each of \<open>n\<close> rows of width \<open>d\<close>: the sum of
  the rows over their number, which is NaN for a matrix of no row.
\<close>

fun mean1 :: "nat \<Rightarrow> real list list list \<Rightarrow> error + real list list" where
  "mean1 d [] = Inr []"
| "mean1 d (rows # t) =
     bind_err (vdiv (vsum d rows) (real (length rows))) (\<lambda>r.
     bind_err (mean1 d t) (\<lambda>rs. Inr (r # rs)))"

text \<open>
  \<^verbatim>\<open>torch.mul(a, b)\<close> of two matrices of the same width: row by row when they have as
  many rows, one row broadcast against the other matrix when one of them has a single
  row, and a \<^verbatim>\<open>RuntimeError\<close> otherwise.
\<close>

definition mul_rows :: "real list list \<Rightarrow> real list list \<Rightarrow> error + real list list" where
  "mul_rows a b =
     (if length a = length b then Inr (map2 vmul a b)
      else if length a = 1 then Inr (map (vmul (a ! 0)) b)
      else if length b = 1 then Inr (map (\<lambda>r. vmul r (b ! 0)) a)
      else Inl RuntimeError)"

text \<open>
  The matrix product \<open>a b\<close>, where \<open>b\<close> has \<open>n\<close> columns (a tensor carries its shape; a
  list of rows does not say how wide it is when it is empty), and \<^verbatim>\<open>torch.bmm\<close>, the
  product matrix by matrix of two batches of the same length.
\<close>

definition matmul :: "nat \<Rightarrow> real list list \<Rightarrow> real list list \<Rightarrow> real list list" where
  "matmul n a b = map (\<lambda>row. map (\<lambda>j. sum_list (map2 (\<lambda>x r. x * r ! j) row b)) [0..<n]) a"

definition bmm :: "nat \<Rightarrow> real list list list \<Rightarrow> real list list list \<Rightarrow> error + real list list list" where
  "bmm n a b = (if length a = length b then Inr (map2 (matmul n) a b) else Inl RuntimeError)"

text \<open>\<^verbatim>\<open>t.unsqueeze(dim=2)\<close> of a matrix, \<^verbatim>\<open>t.squeeze(dim=2)\<close> of a batch of one-column matrices.\<close>

definition unsqueeze2 :: "real list list \<Rightarrow> real list list list" where
  "unsqueeze2 t = map (map (\<lambda>x. [x])) t"

definition squeeze2 :: "real list list list \<Rightarrow> real list list" where
  "squeeze2 t = map (map (\<lambda>col. col ! 0)) t"

section \<open>CBOW\<close>

text \<open>
  The two tables of \<^verbatim>\<open>CBOW.__init__\<close>, each of \<^verbatim>\<open>vocab_size\<close> rows of width
  \<^verbatim>\<open>dim_emb\<close>.
\<close>

record CBOW =
  dim_emb :: nat
  embeddings_x :: "real list list"
  embeddings_y :: "real list list"

definition forward :: "CBOW \<Rightarrow> nat list list \<Rightarrow> nat list \<Rightarrow> error + real list" where
  "forward model X y =
     bind_err (embedding2 (embeddings_x model) X) (\<lambda>ex.
     bind_err (mean1 (dim_emb model) ex) (\<lambda>context.
     bind_err (embedding (embeddings_y model) y) (\<lambda>target.
     bind_err (mul_rows target context) (\<lambda>prod.
     Inr (map sum_list prod)))))"

definition forward_neg :: "CBOW \<Rightarrow> nat list list \<Rightarrow> nat list list \<Rightarrow> error + real list list" where
  "forward_neg model X y =
     bind_err (embedding2 (embeddings_x model) X) (\<lambda>ex.
     bind_err (mean1 (dim_emb model) ex) (\<lambda>context.
     let context = unsqueeze2 context in
     bind_err (embedding2 (embeddings_y model) y) (\<lambda>target.
     bind_err (bmm 1 target context) (\<lambda>prod.
     Inr (squeeze2 prod)))))"

section \<open>NegativeSamplingLoss\<close>

record NegativeSamplingLoss =
  p :: "real list"
  p_src :: "real list"
  p_trg :: "real list"
  offset_trg :: nat
  sample_size :: nat

text \<open>\<^verbatim>\<open>ranges[key]\<close> on a plain dict: a missing key raises.\<close>

definition dict_get :: "('k \<times> 'v) list \<Rightarrow> 'k \<Rightarrow> error + 'v" where
  "dict_get d k = (case map_of d k of None \<Rightarrow> Inl KeyError | Some x \<Rightarrow> Inr x)"

text \<open>
  \<^verbatim>\<open>calc_prior\<close>. The list comprehension keeps the counts \<open>v\<close> of the items of
  \<^verbatim>\<open>freq\<close>, sorted (stably) by the key \<^verbatim>\<open>t[1]\<close>, the count. \<^verbatim>\<open>p[:e]\<close> and \<^verbatim>\<open>p[s:]\<close>
  are \<open>take\<close> and \<open>drop\<close>.
\<close>

definition calc_prior ::
  "(nat \<times> nat) list \<Rightarrow> (string \<times> nat \<times> nat) list \<Rightarrow> string \<Rightarrow> string \<Rightarrow>
     error + real list \<times> real list \<times> real list \<times> nat" where
  "calc_prior freq' ranges src trg =
     (let p = map (\<lambda>(i, c). real c) (sort_key snd freq');
          p = map (\<lambda>x. x powr 0.75) p
      in bind_err (dict_get ranges src) (\<lambda>range_src.
         let p_src = take (snd range_src) p in
         bind_err (dict_get ranges trg) (\<lambda>range_trg.
         let p_trg = drop (fst range_trg) p in
         bind_err (vdiv p_src (sum_list p_src)) (\<lambda>p_src.
         bind_err (vdiv p_trg (sum_list p_trg)) (\<lambda>p_trg.
         Inr (p, p_src, p_trg, fst range_trg))))))"

definition NegativeSamplingLoss_init ::
  "(nat \<times> nat) list \<Rightarrow> (string \<times> nat \<times> nat) list \<Rightarrow> string \<Rightarrow> string \<Rightarrow> nat \<Rightarrow>
     error + NegativeSamplingLoss" where
  "NegativeSamplingLoss_init freq' ranges src trg n =
     bind_err (calc_prior freq' ranges src trg) (\<lambda>(a, a_src, a_trg, off).
       Inr \<lparr>p = a, p_src = a_src, p_trg = a_trg, offset_trg = off, sample_size = n\<rparr>)"

text \<open>
  \<^verbatim>\<open>torch.multinomial(w, n, replacement=True)\<close> returns \<open>n\<close> indices into \<open>w\<close>, each drawn
  with probability proportional to its weight: the indices it can return are those of
  positive weight.
\<close>

definition multinomial_support :: "real list \<Rightarrow> nat list" where
  "multinomial_support w = filter (\<lambda>i. 0 < w ! i) [0..<length w]"

text \<open>
  Lines 160 to 173 of \<^verbatim>\<open>__call__\<close>: the choice of \<^verbatim>\<open>p_mono\<close> and \<^verbatim>\<open>p_cross\<close>, and the
  ids that the two halves of \<^verbatim>\<open>targets_neg\<close> can hold. The indices drawn are
  reshaped and concatenated, and reach \<^verbatim>\<open>model.forward_neg\<close> as target ids, as they
  were drawn.
\<close>

definition targets_neg_support :: "NegativeSamplingLoss \<Rightarrow> bool \<Rightarrow> nat list \<times> nat list" where
  "targets_neg_support self src =
     (let (p_mono, p_cross) = (if src then (p_src self, p_trg self) else (p_trg self, p_src self))
      in (multinomial_support p_mono, multinomial_support p_cross))"

section \<open>DistributionLoss\<close>

text \<open>The keys \<^verbatim>\<open>'src'\<close> and \<^verbatim>\<open>'trg'\<close> of the four dictionaries.\<close>

datatype lang = Src | Trg

record DistributionLoss =
  m :: "lang \<Rightarrow> real list"
  v :: "lang \<Rightarrow> real list list"
  scount :: "lang \<Rightarrow> nat"
  updated :: "lang \<Rightarrow> bool"
  lambda_m :: real
  lambda_v :: real

definition DistributionLoss_init :: "nat \<Rightarrow> real \<Rightarrow> real \<Rightarrow> DistributionLoss" where
  "DistributionLoss_init d lm lv =
     \<lparr>m = (\<lambda>l. replicate d 0), v = (\<lambda>l. replicate d (replicate d 0)),
      scount = (\<lambda>l. 0), updated = (\<lambda>l. False), lambda_m = lm, lambda_v = lv\<rparr>"

text \<open>\<^verbatim>\<open>diff.mul(diff.t())\<close> of a column against a row, and the matrix operations of lines 229 to 230.\<close>

definition outer :: "real list \<Rightarrow> real list \<Rightarrow> real list list" where
  "outer a b = map (\<lambda>x. map (\<lambda>y. x * y) b) a"

definition madd :: "real list list \<Rightarrow> real list list \<Rightarrow> real list list" where
  "madd a b = map2 vadd a b"

definition msmul :: "real \<Rightarrow> real list list \<Rightarrow> real list list" where
  "msmul k a = map (smul k) a"

definition mdiv :: "real list list \<Rightarrow> real \<Rightarrow> error + real list list" where
  "mdiv a k = (if concat a \<noteq> [] \<and> k = 0 then Inl NotANumber else Inr (map (map (\<lambda>x. x / k)) a))"

text \<open>
  Tensors that the code updates in place live in a store, under a reference: two names
  bound to one tensor are one reference.
\<close>

type_synonym ref = nat
type_synonym store = "ref \<Rightarrow> real list"

text \<open>
  Lines 214 to 233 of \<^verbatim>\<open>update_stats\<close> when \<open>x\<close> is a vector of \<open>N\<close> ids after line 213,
  so that \<^verbatim>\<open>vec\<close> is a vector of width \<^verbatim>\<open>dim_emb\<close>, as \<open>m\<close> is, and \<^verbatim>\<open>new_v\<close> is a
  square matrix of that width, as \<open>v\<close> is. \<^verbatim>\<open>new_m = vec\<close> binds a second name to the
  tensor \<^verbatim>\<open>vec\<close>, and \<^verbatim>\<open>new_m += ...\<close> adds in place. The tests \<^verbatim>\<open>is not None\<close>
  always hold: \<^verbatim>\<open>m\<close> and \<^verbatim>\<open>v\<close> only ever hold tensors.
\<close>

definition update_window :: "DistributionLoss \<Rightarrow> CBOW \<Rightarrow> nat list \<Rightarrow> lang \<Rightarrow> error + DistributionLoss" where
  "update_window self model x l =
     (let N = length x in
      bind_err (embedding (embeddings_x model) x) (\<lambda>rows.
      let vec = (0 :: ref);
          h = ((\<lambda>r. []) :: store)(vec := vsum (dim_emb model) rows);
          new_m = vec;
          h = h(new_m := vadd (h new_m) (smul (real (scount self l)) (m self l)))
      in bind_err (vdiv (h new_m) (real (scount self l + N))) (\<lambda>mean.
         let diff = vsub mean (h vec);
             new_v = outer diff diff;
             new_v = madd new_v (msmul (real (scount self l)) (v self l))
         in bind_err (mdiv new_v (real (scount self l + N))) (\<lambda>cov.
            Inr (self\<lparr>m := (m self)(l := mean), v := (v self)(l := cov),
                      scount := (scount self)(l := min 100000 (scount self l + N)),
                      updated := (updated self)(l := True)\<rparr>)))))"

text \<open>
  \<^verbatim>\<open>update_stats\<close> on the tensor \<open>x\<close> of the contexts of a batch, \<open>B\<close> windows of \<open>W\<close> ids
  each (the empty list stands for the tensor of shape \<open>(0, 0)\<close>), for an embedding width
  \<open>D\<close> of at least 2 (\<^verbatim>\<open>main\<close> uses 50): \<^verbatim>\<open>.squeeze()\<close> then never drops the last
  dimension. The widths 0 and 1 are not covered.
  \<^item> \<open>B = 1\<close>: \<^verbatim>\<open>x.squeeze(dim=0)\<close> drops the batch dimension, which gives the window, the
    shape that the comment of line 213 names, and \<open>N = W\<close>.
  \<^item> \<open>B \<noteq> 1\<close>: \<^verbatim>\<open>x.squeeze(dim=0)\<close> changes nothing and \<open>N = B\<close>. The embeddings have the
    shape \<open>(B, W, D)\<close> and their sum over the first dimension the shape \<open>(W, D)\<close>. For
    \<open>W = 1\<close>, \<^verbatim>\<open>.squeeze()\<close> makes it a vector of width \<open>D\<close>, the sum of the rows of the
    \<open>B\<close> ids. Otherwise \<^verbatim>\<open>vec\<close> and the new mean keep the shape \<open>(W, D)\<close>,
    \<^verbatim>\<open>diff.view((-1, 1))\<close> has \<open>W D\<close> rows and \<^verbatim>\<open>new_v\<close> the shape \<open>(W D, W D)\<close>, to which
    \<^verbatim>\<open>new_v += self.scount[lang] * self.v[lang]\<close> cannot broadcast the matrix \<open>v\<close> of
    shape \<open>(D, D)\<close>, as \<open>D\<close> is neither 1 nor \<open>W D\<close>: line 229 raises a
    \<^verbatim>\<open>RuntimeError\<close>, after the lookup of the ids in line 217.
\<close>

definition update_stats :: "DistributionLoss \<Rightarrow> CBOW \<Rightarrow> nat list list \<Rightarrow> lang \<Rightarrow> error + DistributionLoss" where
  "update_stats self model x l =
     (if dim_emb model < 2 then Inl NotModelled
      else if length x = 1 then update_window self model (x ! 0) l
      else if x \<noteq> [] \<and> list_all (\<lambda>w. length w = 1) x then update_window self model (concat x) l
      else bind_err (embedding2 (embeddings_x model) x) (\<lambda>rows. Inl RuntimeError))"

text \<open>\<^verbatim>\<open>DistributionLoss.__call__\<close>: the updated object and the loss, \<open>None\<close> for no loss yet.\<close>

definition DistributionLoss_call ::
  "DistributionLoss \<Rightarrow> CBOW \<Rightarrow> nat list list \<Rightarrow> bool \<Rightarrow> error + DistributionLoss \<times> real option" where
  "DistributionLoss_call self model x src =
     bind_err (if src then update_stats self model x Src else update_stats self model x Trg)
       (\<lambda>self.
          if \<not> (updated self Src \<and> updated self Trg) then Inr (self, None)
          else
            let loss = lambda_m self * sum_list (map (\<lambda>d. d ^ 2) (vsub (m self Src) (m self Trg))) / 2;
                loss = loss + lambda_v self *
                         sum_list (map (\<lambda>d. d ^ 2) (concat (map2 vsub (v self Src) (v self Trg)))) / 2
            in Inr (self, Some loss))"

section \<open>main\<close>

text \<open>
  The random number generators of the process, each by its state: numpy's global one,
  torch's default generator on the CPU and torch's generator on the GPU. Lines 252 to 254
  seed them from \<^verbatim>\<open>args.random_seed\<close>.
\<close>

record generators =
  numpy_random :: nat
  torch_cpu :: nat
  torch_cuda :: nat

definition main_seed :: "bool \<Rightarrow> bool \<Rightarrow> nat \<Rightarrow> generators \<Rightarrow> generators" where
  "main_seed cuda_is_available use_cuda random_seed g =
     (let g = (if cuda_is_available \<and> use_cuda then g\<lparr>torch_cuda := random_seed\<rparr> else g)
      in g\<lparr>numpy_random := random_seed\<rparr>)"

text \<open>
  \<^verbatim>\<open>CBOW.__init__\<close> in the run: \<^verbatim>\<open>nn.Embedding\<close> fills each table with draws from
  torch's default generator on the CPU. The initialiser belongs to the library and is a
  parameter here: \<open>draw s n d\<close> is the table of \<open>n\<close> rows of width \<open>d\<close> drawn from the
  generator in state \<open>s\<close>, and the state after the draw.
\<close>

definition DIM_EMB :: nat where
  "DIM_EMB = 50"

definition CBOW_init ::
  "(nat \<Rightarrow> nat \<Rightarrow> nat \<Rightarrow> real list list \<times> nat) \<Rightarrow> nat \<Rightarrow> nat \<Rightarrow> generators \<Rightarrow> CBOW \<times> generators" where
  "CBOW_init draw vocab_size d g =
     (let (ex, s) = draw (torch_cpu g) vocab_size d;
          (ey, s) = draw s vocab_size d
      in (\<lparr>dim_emb = d, embeddings_x = ex, embeddings_y = ey\<rparr>, g\<lparr>torch_cpu := s\<rparr>))"

definition get_embeddings :: "CBOW \<Rightarrow> real list list" where
  "get_embeddings model = embeddings_x model"

text \<open>
  \<^verbatim>\<open>save_embeddings\<close>: the shape on the first line, then one line for each word with its
  vector. The file is given by its content, before the numbers are printed.
\<close>

definition save_embeddings :: "real list list \<Rightarrow> nat \<Rightarrow> string list \<Rightarrow> (nat \<times> nat) \<times> (string \<times> real list) list" where
  "save_embeddings embs d i2w = ((length embs, d), zip i2w embs)"

text \<open>Lines 263 to 266: both corpora are read, the source first, then \<^verbatim>\<open>set_i2w\<close>.\<close>

definition set_i2w :: "Corpus \<Rightarrow> string list" where
  "set_i2w c = map fst (sort_key snd (w2i c))"

definition main_load ::
  "nat \<Rightarrow> string list list \<Rightarrow> string \<Rightarrow> string list list \<Rightarrow> string \<Rightarrow> Corpus \<times> nat list list \<times> nat list list" where
  "main_load window lines_src lang_src lines_trg lang_trg =
     (let corpus = Corpus_init window;
          (corpus, sents_src) = read corpus lines_src lang_src True;
          (corpus, sents_trg) = read corpus lines_trg lang_trg True
      in (corpus, sents_src, sents_trg))"

text \<open>Lines 271 to 272: the loss is built from the corpus, with the default sample size.\<close>

definition main_loss_func :: "Corpus \<Rightarrow> string \<Rightarrow> string \<Rightarrow> error + NegativeSamplingLoss" where
  "main_loss_func corpus lang_src lang_trg =
     NegativeSamplingLoss_init (freq corpus) (vocab_range corpus) lang_src lang_trg 5"

text \<open>
  \<^verbatim>\<open>main\<close> with \<^verbatim>\<open>--iter 0\<close>: the generators are seeded, the corpora read, the model
  and the losses built, the loop over the iterations is not entered and the embeddings
  are saved. \<open>g\<close> holds the states of the generators when the process starts.
\<close>

definition main_no_iters ::
  "(nat \<Rightarrow> nat \<Rightarrow> nat \<Rightarrow> real list list \<times> nat) \<Rightarrow> bool \<Rightarrow> bool \<Rightarrow> nat \<Rightarrow> nat \<Rightarrow>
     string list list \<Rightarrow> string \<Rightarrow> string list list \<Rightarrow> string \<Rightarrow> generators \<Rightarrow>
     error + (nat \<times> nat) \<times> (string \<times> real list) list" where
  "main_no_iters draw cuda_is_available use_cuda random_seed window lines_src lang_src lines_trg lang_trg g =
     (let g = main_seed cuda_is_available use_cuda random_seed g;
          (corpus, sents_src, sents_trg) = main_load window lines_src lang_src lines_trg lang_trg;
          i2w = set_i2w corpus;
          (model, g) = CBOW_init draw (get_vocabsize corpus) DIM_EMB g
      in bind_err (main_loss_func corpus lang_src lang_trg) (\<lambda>loss_func.
         let loss_func_dist = DistributionLoss_init DIM_EMB 0.2 0.1;
             embs = get_embeddings model
         in Inr (save_embeddings embs (dim_emb model) i2w)))"

section \<open>The corpus reader\<close>

lemma map_of_dict_set: "map_of (dict_set d k x) = (map_of d)(k \<mapsto> x)"
  by (induction d k x rule: dict_set.induct) auto

lemma w2i_get_length: "w2i_get d k = (d', i) \<Longrightarrow> length d \<le> length d'"
  by (auto simp: w2i_get_def split: option.splits)

lemma intern_all_length:
  "intern_all d lang ws = (d', js) \<Longrightarrow> length js = length ws \<and> length d \<le> length d'"
proof (induction ws arbitrary: d d' js)
  case Nil
  then show ?case by simp
next
  case (Cons w ws)
  obtain d1 i where g: "w2i_get d (lang @ '':'' @ w) = (d1, i)"
    by (cases "w2i_get d (lang @ '':'' @ w)")
  obtain d2 ks where r: "intern_all d1 lang ws = (d2, ks)"
    by (cases "intern_all d1 lang ws")
  from Cons.prems g r have "d' = d2" "js = i # ks" by simp_all
  with Cons.IH [OF r] w2i_get_length [OF g] show ?case by simp
qed

lemma read_line_fields:
  "read_line lang cnt c ws = (c', r) \<Longrightarrow>
     window_size c' = window_size c \<and> BOS c' = BOS c \<and> EOS c' = EOS c \<and>
     vocab_range c' = vocab_range c \<and> length (w2i c) \<le> length (w2i c')"
  by (auto simp: read_line_def split: if_splits prod.splits dest: intern_all_length)

lemma read_loop_fields:
  "read_loop lang cnt c ls = (c', sents) \<Longrightarrow>
     window_size c' = window_size c \<and> BOS c' = BOS c \<and> EOS c' = EOS c \<and>
     vocab_range c' = vocab_range c \<and> length (w2i c) \<le> length (w2i c')"
proof (induction ls arbitrary: c c' sents)
  case Nil
  then show ?case by simp
next
  case (Cons l ls)
  obtain c1 r where s: "read_line lang cnt c l = (c1, r)"
    by (cases "read_line lang cnt c l")
  obtain c2 ss where t: "read_loop lang cnt c1 ls = (c2, ss)"
    by (cases "read_loop lang cnt c1 ls")
  from Cons.prems s t have "c' = c2" by simp
  with Cons.IH [OF t] read_line_fields [OF s] show ?case by simp
qed

lemma read_loop_sentences:
  "map (\<lambda>s. (length s, hd s, last s)) (snd (read_loop lang cnt c ls)) =
   map (\<lambda>ws. (length ws + 2, BOS c, EOS c))
     (filter (\<lambda>ws. \<not> int (length ws) < 2 * int (window_size c) - 1) ls)"
proof (induction ls arbitrary: c)
  case Nil
  then show ?case by simp
next
  case (Cons l ls)
  obtain c1 r where s: "read_line lang cnt c l = (c1, r)"
    by (cases "read_line lang cnt c l")
  obtain c2 ss where t: "read_loop lang cnt c1 ls = (c2, ss)"
    by (cases "read_loop lang cnt c1 ls")
  have f: "window_size c1 = window_size c" "BOS c1 = BOS c" "EOS c1 = EOS c"
    using read_line_fields [OF s] by simp_all
  have ih: "map (\<lambda>s. (length s, hd s, last s)) ss =
     map (\<lambda>ws. (length ws + 2, BOS c, EOS c))
       (filter (\<lambda>ws. \<not> int (length ws) < 2 * int (window_size c) - 1) ls)"
    using Cons.IH [of c1] t f by simp
  show ?case
  proof (cases "int (length l) < 2 * int (window_size c) - 1")
    case True
    with s have "r = None" by (simp add: read_line_def)
    with s t ih True show ?thesis by simp
  next
    case False
    obtain d js where i: "intern_all (w2i c) lang l = (d, js)"
      by (cases "intern_all (w2i c) lang l")
    with s False have "r = Some ([BOS c] @ js @ [EOS c])" by (auto simp: read_line_def)
    moreover have "length js = length l" using intern_all_length [OF i] by simp
    ultimately show ?thesis using s t ih False by simp
  qed
qed

lemma Corpus_init_fields:
  "w2i (Corpus_init ws) = [(''<unk>'', 0), (''<s>'', 1), (''</s>'', 2)]"
  "freq (Corpus_init ws) = [(0, 0), (1, 0), (2, 0)]"
  "UNK (Corpus_init ws) = 0" "BOS (Corpus_init ws) = 1" "EOS (Corpus_init ws) = 2"
  "window_size (Corpus_init ws) = ws" "vocab_range (Corpus_init ws) = []"
  by (simp_all add: Corpus_init_def w2i_get_def)

text \<open>
  C9. A line of fewer than \<open>2 * window_size - 1\<close> words yields no sentence; every other
  line yields one sentence, in the order of the lines, whose length is the number of words
  plus 2, whose first id is \<open>BOS\<close> and whose last id is \<open>EOS\<close>.
\<close>

theorem read_sentences_framed:
  "map (\<lambda>s. (length s, hd s, last s)) (snd (read c lines lang cnt)) =
   map (\<lambda>ws. (length ws + 2, BOS c, EOS c))
     (filter (\<lambda>ws. \<not> int (length ws) < 2 * int (window_size c) - 1) lines)"
proof -
  obtain c' ss where l: "read_loop lang cnt c lines = (c', ss)"
    by (cases "read_loop lang cnt c lines")
  then have "snd (read c lines lang cnt) = ss" by (simp add: read_def)
  with read_loop_sentences [of lang cnt c lines] l show ?thesis by simp
qed

theorem read_sentences_framed_witness:
  "snd (read (Corpus_init 2) [[''a'', ''a'', ''b''], [''c''], [''b'', ''d'', ''a'', ''e'']] ''en'' True) =
     [[1, 3, 3, 4, 2], [1, 4, 5, 3, 6, 2]] \<and>
   map (\<lambda>s. (length s, hd s, last s))
     (snd (read (Corpus_init 2) [[''a'', ''a'', ''b''], [''c''], [''b'', ''d'', ''a'', ''e'']] ''en'' True)) =
     [(5, 1, 2), (6, 1, 2)]"
proof -
  have "snd (read (Corpus_init 2) [[''a'', ''a'', ''b''], [''c''], [''b'', ''d'', ''a'', ''e'']] ''en'' True) =
     [[1, 3, 3, 4, 2], [1, 4, 5, 3, 6, 2]]"
    by code_simp
  moreover have "map (\<lambda>s. (length s, hd s, last s))
     (snd (read (Corpus_init 2) [[''a'', ''a'', ''b''], [''c''], [''b'', ''d'', ''a'', ''e'']] ''en'' True)) =
     [(5, 1, 2), (6, 1, 2)]"
    using read_sentences_framed
      [of "Corpus_init 2" "[[''a'', ''a'', ''b''], [''c''], [''b'', ''d'', ''a'', ''e'']]" "''en''" True]
    by (simp add: Corpus_init_fields)
  ultimately show ?thesis by simp
qed

text \<open>
  C6. When a fresh corpus reads the source file to its end and then the target file to
  its end, under two distinct language codes, the two ranges recorded are half-open
  intervals that do not meet, and together with the sentinels 0, 1 and 2 they make up
  all the ids below the final vocabulary size.
\<close>

theorem vocab_ranges_partition:
  assumes "lang_src \<noteq> lang_trg"
    and "read (Corpus_init ws) lines_src lang_src cnt1 = (c1, sents_src)"
    and "read c1 lines_trg lang_trg cnt2 = (c2, sents_trg)"
  shows "\<exists>s1 e1 s2 e2.
           map_of (vocab_range c2) lang_src = Some (s1, e1) \<and>
           map_of (vocab_range c2) lang_trg = Some (s2, e2) \<and>
           s1 \<le> e1 \<and> s2 \<le> e2 \<and>
           {s1..<e1} \<inter> {s2..<e2} = {} \<and>
           {s1..<e1} \<union> {s2..<e2} \<union> {0, 1, 2} = {0..<get_vocabsize c2}"
proof -
  obtain a sa where l1: "read_loop lang_src cnt1 (Corpus_init ws) lines_src = (a, sa)"
    by (cases "read_loop lang_src cnt1 (Corpus_init ws) lines_src")
  have c1: "c1 = a\<lparr>vocab_range := dict_set (vocab_range a) lang_src (3, length (w2i a))\<rparr>"
    using assms(2) l1 by (auto simp: read_def Corpus_init_fields numeral_3_eq_3)
  have a: "vocab_range a = []" "3 \<le> length (w2i a)"
    using read_loop_fields [OF l1] by (simp_all add: Corpus_init_fields)
  obtain b sb where l2: "read_loop lang_trg cnt2 c1 lines_trg = (b, sb)"
    by (cases "read_loop lang_trg cnt2 c1 lines_trg")
  have c2: "c2 = b\<lparr>vocab_range := dict_set (vocab_range b) lang_trg (length (w2i c1), length (w2i b))\<rparr>"
    using assms(3) l2 by (simp add: read_def)
  have b: "vocab_range b = vocab_range c1" "length (w2i c1) \<le> length (w2i b)"
    using read_loop_fields [OF l2] by simp_all
  let ?e1 = "length (w2i a)" and ?e2 = "length (w2i b)"
  have r1: "map_of (vocab_range c2) lang_src = Some (3, ?e1)"
    using assms(1) by (simp add: c2 b c1 a map_of_dict_set)
  have r2: "map_of (vocab_range c2) lang_trg = Some (?e1, ?e2)"
    by (simp add: c2 b c1 a map_of_dict_set)
  have le: "3 \<le> ?e1" "?e1 \<le> ?e2" using a b by (simp_all add: c1)
  have vs: "get_vocabsize c2 = ?e2" by (simp add: get_vocabsize_def c2)
  have d: "{3..<?e1} \<inter> {?e1..<?e2} = {}" by auto
  have u: "{3..<?e1} \<union> {?e1..<?e2} \<union> {0, 1, 2} = {0..<?e2}" using le by auto
  show ?thesis using r1 r2 le d u vs by (intro exI [of _ 3] exI [of _ ?e1] exI [of _ ?e2]) simp
qed

lemma load_aab:
  "main_load 2 [[''a'', ''a'', ''b'']] ''en'' [[''x'', ''y'', ''z'']] ''it'' =
   (\<lparr>window_size = 2,
     w2i = [(''<unk>'', 0), (''<s>'', 1), (''</s>'', 2), (''en:a'', 3), (''en:b'', 4),
            (''it:x'', 5), (''it:y'', 6), (''it:z'', 7)],
     freq = [(0, 0), (1, 0), (2, 0), (3, 2), (4, 1), (5, 1), (6, 1), (7, 1)],
     UNK = 0, BOS = 1, EOS = 2, vocab_range = [(''en'', 3, 5), (''it'', 5, 8)]\<rparr>,
    [[1, 3, 3, 4, 2]], [[1, 5, 6, 7, 2]])"
  by code_simp

lemma load_abc:
  "main_load 2 [[''a'', ''b'', ''c'']] ''en'' [[''x'', ''y'', ''z'']] ''it'' =
   (\<lparr>window_size = 2,
     w2i = [(''<unk>'', 0), (''<s>'', 1), (''</s>'', 2), (''en:a'', 3), (''en:b'', 4), (''en:c'', 5),
            (''it:x'', 6), (''it:y'', 7), (''it:z'', 8)],
     freq = [(0, 0), (1, 0), (2, 0), (3, 1), (4, 1), (5, 1), (6, 1), (7, 1), (8, 1)],
     UNK = 0, BOS = 1, EOS = 2, vocab_range = [(''en'', 3, 6), (''it'', 6, 9)]\<rparr>,
    [[1, 3, 4, 5, 2]], [[1, 6, 7, 8, 2]])"
  by code_simp

theorem vocab_ranges_partition_witness:
  "''en'' \<noteq> ''it'' \<and>
   (\<exists>c. fst (main_load 2 [[''a'', ''a'', ''b'']] ''en'' [[''x'', ''y'', ''z'']] ''it'') = c \<and>
     vocab_range c = [(''en'', 3, 5), (''it'', 5, 8)] \<and> get_vocabsize c = 8 \<and>
     (\<exists>s1 e1 s2 e2.
           map_of (vocab_range c) ''en'' = Some (s1, e1) \<and>
           map_of (vocab_range c) ''it'' = Some (s2, e2) \<and>
           s1 \<le> e1 \<and> s2 \<le> e2 \<and>
           {s1..<e1} \<inter> {s2..<e2} = {} \<and>
           {s1..<e1} \<union> {s2..<e2} \<union> {0, 1, 2} = {0..<get_vocabsize c}))"
proof -
  let ?r1 = "read (Corpus_init 2) [[''a'', ''a'', ''b'']] ''en'' True"
  let ?r2 = "read (fst ?r1) [[''x'', ''y'', ''z'']] ''it'' True"
  have n: "''en'' \<noteq> ''it''" by simp
  have e1: "?r1 = (fst ?r1, snd ?r1)" and e2: "?r2 = (fst ?r2, snd ?r2)" by simp_all
  have c: "fst (main_load 2 [[''a'', ''a'', ''b'']] ''en'' [[''x'', ''y'', ''z'']] ''it'') = fst ?r2"
    by (simp add: main_load_def Let_def split: prod.splits)
  have "vocab_range (fst ?r2) = [(''en'', 3, 5), (''it'', 5, 8)] \<and> get_vocabsize (fst ?r2) = 8"
    using load_aab unfolding c [symmetric] by (simp add: get_vocabsize_def)
  with vocab_ranges_partition [OF n e1 e2] n c show ?thesis by simp
qed

section \<open>The batch generator\<close>

lemma batch_pairs_simps:
  "batch_pairs (xs @ ys) = batch_pairs xs @ batch_pairs ys"
  "batch_pairs [] = []"
  "batch_pairs [b] = zip (fst b) (snd b)"
  by (simp_all add: batch_pairs_def)

lemma sent_loop_foldl:
  "sent_loop w bs st sent =
   foldl (accumulate bs) st (map (window_pair w sent) [w ..< length sent - w])"
  by (simp add: sent_loop_def foldl_map)

lemma run_foldl:
  "foldl (sent_loop w bs) st sents =
   foldl (accumulate bs) st
     (concat (map (\<lambda>sent. map (window_pair w sent) [w ..< length sent - w]) sents))"
  by (induction sents arbitrary: st) (simp_all add: sent_loop_foldl)

lemma accumulate_pairs:
  assumes "accumulate bs ((cs, ts, n), out) pr = ((cs', ts', n'), out')" "length cs = length ts"
  shows "length cs' = length ts' \<and>
         batch_pairs out' @ zip cs' ts' = batch_pairs out @ zip cs ts @ [pr]"
  using assms by (auto simp: accumulate_def Let_def batch_pairs_simps split: if_splits)

lemma foldl_accumulate_pairs:
  "foldl (accumulate bs) ((cs, ts, n), out) prs = ((cs', ts', n'), out') \<Longrightarrow>
   length cs = length ts \<Longrightarrow>
   length cs' = length ts' \<and> batch_pairs out' @ zip cs' ts' = batch_pairs out @ zip cs ts @ prs"
proof (induction prs arbitrary: cs ts n out)
  case Nil
  then show ?case by simp
next
  case (Cons pr prs)
  obtain cs1 ts1 n1 out1 where s: "accumulate bs ((cs, ts, n), out) pr = ((cs1, ts1, n1), out1)"
    by (metis prod.exhaust)
  from accumulate_pairs [OF s Cons.prems(2)]
  have a: "length cs1 = length ts1"
    "batch_pairs out1 @ zip cs1 ts1 = batch_pairs out @ zip cs ts @ [pr]"
    by simp_all
  from Cons.prems(1) s
  have "foldl (accumulate bs) ((cs1, ts1, n1), out1) prs = ((cs', ts', n'), out')"
    by simp
  from Cons.IH [OF this a(1)] a(2) show ?case by simp
qed

lemma accumulate_inv:
  assumes "1 \<le> bs" "accumulator_inv bs st"
  shows "accumulator_inv bs (accumulate bs st pr) \<and>
         length (snd (accumulate bs st pr)) * nat bs + snd (snd (fst (accumulate bs st pr))) =
         length (snd st) * nat bs + snd (snd (fst st)) + 1"
proof -
  obtain cs ts n out where st: "st = ((cs, ts, n), out)" by (metis prod.exhaust)
  show ?thesis
  proof (cases "int (n + 1) \<ge> bs")
    case True
    with assms st have "nat bs = n + 1" by (auto simp: accumulator_inv_def)
    with True assms st show ?thesis by (auto simp: accumulator_inv_def accumulate_def Let_def)
  next
    case False
    with assms st show ?thesis by (auto simp: accumulator_inv_def accumulate_def Let_def)
  qed
qed

lemma foldl_accumulate_inv:
  "1 \<le> bs \<Longrightarrow> accumulator_inv bs st \<Longrightarrow>
   accumulator_inv bs (foldl (accumulate bs) st prs) \<and>
   length (snd (foldl (accumulate bs) st prs)) * nat bs +
     snd (snd (fst (foldl (accumulate bs) st prs))) =
   length (snd st) * nat bs + snd (snd (fst st)) + length prs"
proof (induction prs arbitrary: st)
  case Nil
  then show ?case by simp
next
  case (Cons pr prs)
  from accumulate_inv [OF Cons.prems, of pr] Cons.IH [of "accumulate bs st pr"] Cons.prems(1)
  show ?case by simp
qed

lemma py_slice_nth: "b \<le> length xs \<Longrightarrow> py_slice a b xs = map ((!) xs) [a..<b]"
  by (auto simp: py_slice_def list_eq_iff_nth_eq)

lemma window_pair_nth:
  assumes "w \<le> pos" "pos < length sent - w"
  shows "window_pair w sent pos =
         (map ((!) sent) ([pos - w..<pos] @ [pos + 1..<pos + w + 1]), sent ! pos)"
  using assms by (simp add: window_pair_def Let_def py_slice_nth)

text \<open>
  C5, as amended. For a \<^verbatim>\<open>batch_size\<close> of at least 1, every batch that
  \<^verbatim>\<open>generate_batch\<close> yields holds exactly \<^verbatim>\<open>batch_size\<close> contexts and as many
  targets; the number of batches is the number of window positions of all the sentences
  divided by \<^verbatim>\<open>batch_size\<close>, rounded down, so that the pairs left over at the end are
  dropped, and no batch is yielded when there are fewer positions than \<^verbatim>\<open>batch_size\<close>.
\<close>

theorem batches_have_batch_size:
  assumes "1 \<le> batch_size"
  shows "(\<forall>b \<in> set (generate_batch sents window batch_size).
            int (length (fst b)) = batch_size \<and> int (length (snd b)) = batch_size) \<and>
         length (generate_batch sents window batch_size) =
           (\<Sum>sent\<leftarrow>sents. length [window ..< length sent - window]) div nat batch_size \<and>
         (int (\<Sum>sent\<leftarrow>sents. length [window ..< length sent - window]) < batch_size \<longrightarrow>
            generate_batch sents window batch_size = [])"
proof -
  define prs where
    "prs = concat (map (\<lambda>sent. map (window_pair window sent) [window ..< length sent - window]) sents)"
  define tot where "tot = (\<Sum>sent\<leftarrow>sents. length [window ..< length sent - window])"
  obtain cs ts n out
    where r: "foldl (accumulate batch_size) (([], [], 0), []) prs = ((cs, ts, n), out)"
    by (metis prod.exhaust)
  have g: "generate_batch sents window batch_size = out"
    using r by (simp add: generate_batch_def generate_batch_run_def run_foldl prs_def)
  have i: "accumulator_inv batch_size (([], [], 0), [])"
    using assms by (simp add: accumulator_inv_def)
  have len: "length prs = tot" by (simp add: prs_def tot_def length_concat comp_def)
  have "accumulator_inv batch_size ((cs, ts, n), out) \<and> length out * nat batch_size + n = tot"
    using foldl_accumulate_inv [OF assms i, of prs] unfolding r len by simp
  then have n: "n < nat batch_size"
    and a: "list_all (\<lambda>b. length (fst b) = nat batch_size \<and> length (snd b) = nat batch_size) out"
    and e: "length out * nat batch_size + n = tot"
    using assms by (auto simp: accumulator_inv_def)
  have d: "length out = tot div nat batch_size"
  proof -
    have "tot div nat batch_size = (length out * nat batch_size + n) div nat batch_size"
      using e by simp
    also have "\<dots> = length out" using n by simp
    finally show ?thesis by simp
  qed
  have z: "int tot < batch_size \<longrightarrow> out = []"
  proof
    assume "int tot < batch_size"
    then have "tot < nat batch_size" by simp
    then show "out = []" using d by simp
  qed
  have "\<forall>b \<in> set out. int (length (fst b)) = batch_size \<and> int (length (snd b)) = batch_size"
    using a assms by (simp add: list_all_iff)
  with d z show ?thesis unfolding g tot_def by simp
qed

theorem batches_have_batch_size_witness:
  "(1 :: int) \<le> 2 \<and>
   generate_batch [[1, 5, 6, 7, 2], [1, 8, 9, 2]] 1 2 =
     [([[1, 6], [5, 7]], [5, 6]), ([[6, 2], [1, 9]], [7, 8])] \<and>
   list_all (\<lambda>b. int (length (fst b)) = 2 \<and> int (length (snd b)) = 2)
     (generate_batch [[1, 5, 6, 7, 2], [1, 8, 9, 2]] 1 2) \<and>
   length (generate_batch [[1, 5, 6, 7, 2], [1, 8, 9, 2]] 1 2) = (3 + 2) div 2"
proof -
  have "generate_batch [[1, 5, 6, 7, 2], [1, 8, 9, 2]] 1 2 =
     [([[1, 6], [5, 7]], [5, 6]), ([[6, 2], [1, 9]], [7, 8])]"
    by code_simp
  moreover have "list_all (\<lambda>b. int (length (fst b)) = 2 \<and> int (length (snd b)) = 2)
     (generate_batch [[1, 5, 6, 7, 2], [1, 8, 9, 2]] 1 2) \<and>
     length (generate_batch [[1, 5, 6, 7, 2], [1, 8, 9, 2]] 1 2) = (3 + 2) div 2"
    using batches_have_batch_size [of 2 "[[1, 5, 6, 7, 2], [1, 8, 9, 2]]" 1]
    by (simp add: list_all_iff)
  ultimately show ?thesis by simp
qed

text \<open>
  C5 as stated fails for a \<^verbatim>\<open>batch_size\<close> of 0: the test \<^verbatim>\<open>count >= batch_size\<close> holds
  after the first pair, and every batch holds one pair.
\<close>

theorem batch_size_zero_counterexample:
  "generate_batch [[1, 5, 6, 7, 2]] 1 0 = [([[1, 6]], [5]), ([[5, 7]], [6]), ([[6, 2]], [7])] \<and>
   \<not> (\<forall>b \<in> set (generate_batch [[1, 5, 6, 7, 2]] 1 0). int (length (fst b)) = 0)"
proof -
  have "generate_batch [[1, 5, 6, 7, 2]] 1 0 = [([[1, 6]], [5]), ([[5, 7]], [6]), ([[6, 2]], [7])]"
    by code_simp
  then show ?thesis by simp
qed

text \<open>
  C8. For every sentence and every position \<open>pos\<close> from \<open>window\<close> up to its length minus
  \<open>window\<close>, \<^verbatim>\<open>generate_batch\<close> emits exactly one pair into the batch it accumulates,
  of the ids at \<open>[pos - window, pos)\<close> followed by those at \<open>[pos + 1, pos + window + 1)\<close>
  and of the id at \<open>pos\<close>, and it emits no other pair: the pairs of the batches it
  yields, followed by the pairs left in the accumulator at the end, are these pairs, in
  the order of the sentences and of the positions.
\<close>

theorem window_pairs_formed:
  "(case generate_batch_run sents window batch_size of ((contexts, targets, count), out) \<Rightarrow>
      out = generate_batch sents window batch_size \<and>
      batch_pairs out @ zip contexts targets =
      concat (map (\<lambda>sent.
        map (\<lambda>pos. (map ((!) sent) ([pos - window ..< pos] @ [pos + 1 ..< pos + window + 1]),
                     sent ! pos))
          [window ..< length sent - window]) sents))"
proof -
  let ?prs = "concat (map (\<lambda>sent. map (window_pair window sent) [window ..< length sent - window]) sents)"
  obtain cs ts n out where r: "generate_batch_run sents window batch_size = ((cs, ts, n), out)"
    by (metis prod.exhaust)
  then have "foldl (accumulate batch_size) (([], [], 0), []) ?prs = ((cs, ts, n), out)"
    by (simp add: generate_batch_run_def run_foldl)
  from foldl_accumulate_pairs [OF this]
  have "batch_pairs out @ zip cs ts = ?prs" by (simp add: batch_pairs_simps)
  moreover have "?prs = concat (map (\<lambda>sent.
        map (\<lambda>pos. (map ((!) sent) ([pos - window ..< pos] @ [pos + 1 ..< pos + window + 1]),
                     sent ! pos))
          [window ..< length sent - window]) sents)"
    by (rule arg_cong [where f = concat], rule map_cong, simp, rule map_cong, simp)
       (simp add: window_pair_nth)
  ultimately show ?thesis using r by (simp add: generate_batch_def)
qed

section \<open>The embedding model\<close>

lemma matmul_column:
  "matmul (Suc 0) rows (map (\<lambda>x. [x]) c) = map (\<lambda>row. [sum_list (vmul row c)]) rows"
  by (simp add: matmul_def vmul_def zip_map2 case_prod_unfold comp_def)

lemma squeeze2_bmm_single:
  "length ys = length cs \<Longrightarrow>
   squeeze2 (map2 (matmul (Suc 0)) (map (\<lambda>t. [t]) ys) (unsqueeze2 cs)) =
   map (\<lambda>s. [s]) (map sum_list (map2 vmul ys cs))"
proof (induction ys cs rule: list_induct2)
  case Nil
  then show ?case by (simp add: squeeze2_def unsqueeze2_def)
next
  case (Cons t ys c cs)
  then show ?case by (simp add: squeeze2_def unsqueeze2_def matmul_column)
qed

lemma length_unsqueeze2: "length (unsqueeze2 t) = length t"
  by (simp add: unsqueeze2_def)

lemma embedding2_single:
  "embedding2 W (map (\<lambda>t. [t]) y) = bind_err (embedding W y) (\<lambda>rows. Inr (map (\<lambda>r. [r]) rows))"
  by (simp add: embedding2_def embedding_def bind_err_def list_all_iff comp_def)

lemma mean1_length: "mean1 d t = Inr c \<Longrightarrow> length c = length t"
proof (induction t arbitrary: c)
  case Nil
  then show ?case by simp
next
  case (Cons rows t)
  then show ?case by (auto simp: bind_err_def split: sum.splits)
qed

lemma mean1_defined: "list_all (\<lambda>rows. rows \<noteq> []) t \<Longrightarrow> \<exists>c. mean1 d t = Inr c"
  by (induction t) (auto simp: bind_err_def vdiv_def)

lemma embedding2_length: "embedding2 W X = Inr t \<Longrightarrow> length t = length X"
  by (auto simp: embedding2_def split: if_splits)

lemma embedding2_nonempty:
  "embedding2 W X = Inr t \<Longrightarrow> list_all (\<lambda>ids. ids \<noteq> []) X \<Longrightarrow> list_all (\<lambda>rows. rows \<noteq> []) t"
  by (auto simp: embedding2_def list_all_iff split: if_splits)

lemma embedding_length: "embedding W y = Inr t \<Longrightarrow> length t = length y"
  by (auto simp: embedding_def split: if_splits)

lemma forward_neg_single:
  assumes "length X = length y"
  shows "forward_neg model X (map (\<lambda>t. [t]) y) =
         bind_err (forward model X y) (\<lambda>scores. Inr (map (\<lambda>s. [s]) scores))"
proof (cases "embedding2 (embeddings_x model) X")
  case (Inl e)
  then show ?thesis by (simp add: forward_neg_def forward_def bind_err_def)
next
  case ex: (Inr ex)
  show ?thesis
  proof (cases "mean1 (dim_emb model) ex")
    case (Inl e)
    with ex show ?thesis by (simp add: forward_neg_def forward_def bind_err_def)
  next
    case c: (Inr cx)
    have lc: "length cx = length y"
      using mean1_length [OF c] embedding2_length [OF ex] assms by simp
    show ?thesis
    proof (cases "embedding (embeddings_y model) y")
      case (Inl e)
      with ex c show ?thesis
        by (simp add: forward_neg_def forward_def bind_err_def embedding2_single)
    next
      case t: (Inr target)
      have lt: "length target = length cx" using embedding_length [OF t] lc by simp
      from ex c t lt show ?thesis
        by (simp add: forward_neg_def forward_def bind_err_def embedding2_single bmm_def
            mul_rows_def Let_def squeeze2_bmm_single length_unsqueeze2)
    qed
  qed
qed

lemma forward_defined:
  assumes "length X = length y"
    and "list_all (list_all (\<lambda>i. i < length (embeddings_x model))) X"
    and "list_all (\<lambda>ids. ids \<noteq> []) X"
    and "list_all (\<lambda>i. i < length (embeddings_y model)) y"
  shows "\<exists>scores. forward model X y = Inr scores \<and> length scores = length y"
proof -
  from assms(2) obtain ex where ex: "embedding2 (embeddings_x model) X = Inr ex"
    by (simp add: embedding2_def)
  from mean1_defined [OF embedding2_nonempty [OF ex assms(3)]]
  obtain cx where c: "mean1 (dim_emb model) ex = Inr cx" by blast
  from assms(4) obtain target where t: "embedding (embeddings_y model) y = Inr target"
    by (simp add: embedding_def)
  have l: "length target = length y" "length cx = length y"
    using embedding_length [OF t] mean1_length [OF c] embedding2_length [OF ex] assms(1)
    by simp_all
  from ex c t l show ?thesis by (simp add: forward_def bind_err_def mul_rows_def)
qed

text \<open>
  C10. For a batch \<open>X\<close> of non-empty windows and as many targets \<open>y\<close>, all ids below the
  vocabulary size, \<^verbatim>\<open>forward(X, y)\<close> returns one score for each example, and
  \<^verbatim>\<open>forward_neg\<close> on the targets as a matrix of one column returns the matrix whose
  only column holds the same scores.
\<close>

theorem forward_neg_single_column:
  assumes "length X = length y"
    and "list_all (list_all (\<lambda>i. i < length (embeddings_x model))) X"
    and "list_all (\<lambda>ids. ids \<noteq> []) X"
    and "list_all (\<lambda>i. i < length (embeddings_y model)) y"
  shows "\<exists>scores negs.
           forward model X y = Inr scores \<and> length scores = length y \<and>
           forward_neg model X (map (\<lambda>t. [t]) y) = Inr negs \<and>
           list_all (\<lambda>row. length row = 1) negs \<and>
           map (\<lambda>row. row ! 0) negs = scores"
proof -
  from forward_defined [OF assms]
  obtain scores where s: "forward model X y = Inr scores" "length scores = length y" by blast
  have "forward_neg model X (map (\<lambda>t. [t]) y) = Inr (map (\<lambda>s. [s]) scores)"
    using forward_neg_single [OF assms(1), of model] s(1) by (simp add: bind_err_def)
  moreover have "list_all (\<lambda>row. length row = 1) (map (\<lambda>s. [s]) scores)"
    by (simp add: list_all_iff)
  moreover have "map (\<lambda>row. row ! 0) (map (\<lambda>s. [s]) scores) = scores"
    by (simp add: comp_def)
  ultimately show ?thesis using s by blast
qed

theorem forward_neg_single_column_witness:
  "forward \<lparr>dim_emb = 2, embeddings_x = [[1, 2], [3, 4]], embeddings_y = [[5, 6], [7, 8]]\<rparr>
     [[0, 1], [1, 1]] [1, 0] = Inr [38, 39] \<and>
   (\<exists>negs.
     forward_neg \<lparr>dim_emb = 2, embeddings_x = [[1, 2], [3, 4]], embeddings_y = [[5, 6], [7, 8]]\<rparr>
       [[0, 1], [1, 1]] [[1], [0]] = Inr negs \<and>
     map (\<lambda>row. row ! 0) negs = [38, 39])"
proof -
  let ?M = "\<lparr>dim_emb = 2, embeddings_x = [[1, 2], [3, 4]], embeddings_y = [[5, 6], [7, 8]]\<rparr>"
  have f: "forward ?M [[0, 1], [1, 1]] [1, 0] = Inr [38, 39]"
    by (simp add: forward_def embedding2_def embedding_def bind_err_def vdiv_def vsum_def
        vadd_def vmul_def mul_rows_def eval_nat_numeral)
  have "\<exists>negs. forward_neg ?M [[0, 1], [1, 1]] [[1], [0]] = Inr negs \<and>
          map (\<lambda>row. row ! 0) negs = [38, 39]"
    using forward_neg_single_column [of "[[0, 1], [1, 1]]" "[1, 0]" ?M] f by auto
  with f show ?thesis by simp
qed

section \<open>The negative sampling loss\<close>

lemma prior_abc:
  "calc_prior [(0, 0), (1, 0), (2, 0), (3, 1), (4, 1), (5, 1), (6, 1), (7, 1), (8, 1)]
     [(''en'', 3, 6), (''it'', 6, 9)] ''en'' ''it'' =
   Inr ([0, 0, 0, 1, 1, 1, 1, 1, 1], [0, 0, 0, 1/3, 1/3, 1/3], [1/3, 1/3, 1/3], 6)"
  by (simp add: calc_prior_def dict_get_def bind_err_def vdiv_def)

lemma loss_func_abc:
  "main_loss_func (fst (main_load 2 [[''a'', ''b'', ''c'']] ''en'' [[''x'', ''y'', ''z'']] ''it'')) ''en'' ''it'' =
   Inr \<lparr>p = [0, 0, 0, 1, 1, 1, 1, 1, 1], p_src = [0, 0, 0, 1/3, 1/3, 1/3],
        p_trg = [1/3, 1/3, 1/3], offset_trg = 6, sample_size = 5\<rparr>"
proof -
  let ?corpus = "fst (main_load 2 [[''a'', ''b'', ''c'']] ''en'' [[''x'', ''y'', ''z'']] ''it'')"
  have f: "freq ?corpus = [(0, 0), (1, 0), (2, 0), (3, 1), (4, 1), (5, 1), (6, 1), (7, 1), (8, 1)]"
    and r: "vocab_range ?corpus = [(''en'', 3, 6), (''it'', 6, 9)]"
    unfolding load_abc by simp_all
  show ?thesis
    unfolding main_loss_func_def NegativeSamplingLoss_init_def f r prior_abc
    by (simp add: bind_err_def)
qed

lemma support_thirds: "multinomial_support [1/3, 1/3, 1/3] = [0, 1, 2]"
  by (simp add: multinomial_support_def upt_rec)

lemma support_zeros_thirds: "multinomial_support [0, 0, 0, 1/3, 1/3, 1/3] = [3, 4, 5]"
  by (simp add: multinomial_support_def upt_rec)

text \<open>
  C1, at a failing input. The source file holds the line \<^verbatim>\<open>a b c\<close> and the target
  file the line \<^verbatim>\<open>x y z\<close>, with a window of 2: the target language owns the ids 6, 7
  and 8. For a source batch the cross-language ids are drawn from \<^verbatim>\<open>p_trg\<close>, which
  is indexed from 0, and \<^verbatim>\<open>offset_trg\<close> is never added: the ids that can be drawn
  are 0, 1 and 2, the sentinels. For a target batch they are 3, 4 and 5, the source range.
\<close>

theorem cross_negatives_outside_target_range:
  "\<exists>corpus loss_func.
     fst (main_load 2 [[''a'', ''b'', ''c'']] ''en'' [[''x'', ''y'', ''z'']] ''it'') = corpus \<and>
     map_of (vocab_range corpus) ''en'' = Some (3, 6) \<and>
     map_of (vocab_range corpus) ''it'' = Some (6, 9) \<and>
     main_loss_func corpus ''en'' ''it'' = Inr loss_func \<and>
     p_trg loss_func = [1/3, 1/3, 1/3] \<and> offset_trg loss_func = 6 \<and>
     snd (targets_neg_support loss_func True) = [0, 1, 2] \<and>
     snd (targets_neg_support loss_func False) = [3, 4, 5]"
proof -
  let ?corpus = "fst (main_load 2 [[''a'', ''b'', ''c'']] ''en'' [[''x'', ''y'', ''z'']] ''it'')"
  define loss_func where
    "loss_func = \<lparr>p = [0, 0, 0, 1, 1, 1, 1, 1, 1], p_src = [0, 0, 0, 1/3, 1/3, 1/3],
                   p_trg = [1/3, 1/3, 1/3], offset_trg = 6, sample_size = 5\<rparr>"
  have r: "vocab_range ?corpus = [(''en'', 3, 6), (''it'', 6, 9)]"
    unfolding load_abc by simp
  have l: "main_loss_func ?corpus ''en'' ''it'' = Inr loss_func"
    unfolding loss_func_def by (rule loss_func_abc)
  have s: "snd (targets_neg_support loss_func True) = [0, 1, 2]"
    "snd (targets_neg_support loss_func False) = [3, 4, 5]"
    unfolding targets_neg_support_def loss_func_def
    using support_thirds support_zeros_thirds by simp_all
  have "p_trg loss_func = [1/3, 1/3, 1/3]" "offset_trg loss_func = 6"
    by (simp_all add: loss_func_def)
  with l s r show ?thesis by simp
qed

text \<open>
  Each slice of the prior that \<^verbatim>\<open>calc_prior\<close> returns sums to 1, whatever the order of
  the counts.
\<close>

lemma sum_list_divide: "(\<Sum>x\<leftarrow>a. x / k) = sum_list a / (k :: real)"
  by (induction a) (simp_all add: add_divide_distrib)

lemma vdiv_sum_one:
  assumes "vdiv a (sum_list a) = Inr b" "b \<noteq> []"
  shows "sum_list b = 1"
proof -
  from assms have k: "sum_list a \<noteq> 0" and b: "b = map (\<lambda>x. x / sum_list a) a"
    by (auto simp: vdiv_def split: if_splits)
  then show ?thesis by (simp add: sum_list_divide)
qed

lemma calc_prior_sums_to_one:
  assumes "calc_prior freq' ranges src trg = Inr (a, a_src, a_trg, off)"
    and "a_src \<noteq> []" and "a_trg \<noteq> []"
  shows "sum_list a_src = 1 \<and> sum_list a_trg = 1"
proof -
  from assms(1) obtain b_src b_trg
    where "vdiv b_src (sum_list b_src) = Inr a_src" "vdiv b_trg (sum_list b_trg) = Inr a_trg"
    by (auto simp: calc_prior_def bind_err_def Let_def split: sum.splits)
  with assms(2,3) show ?thesis by (simp add: vdiv_sum_one)
qed

lemma prior_aab:
  "\<exists>a a_trg. calc_prior [(0, 0), (1, 0), (2, 0), (3, 2), (4, 1), (5, 1), (6, 1), (7, 1)]
     [(''en'', 3, 5), (''it'', 5, 8)] ''en'' ''it'' = Inr (a, [0, 0, 0, 1/2, 1/2], a_trg, 5)"
proof -
  have "0 < (2 :: real) powr (3 / 4)" by simp
  then have "1 + (1 + (2 :: real) powr (3 / 4)) \<noteq> 0" by linarith
  then show ?thesis
    by (simp add: calc_prior_def dict_get_def bind_err_def vdiv_def)
qed

text \<open>
  C3, at a failing input. The source file holds the line \<^verbatim>\<open>a a b\<close> and the target file
  the line \<^verbatim>\<open>x y z\<close>, with a window of 2: id 3 (\<^verbatim>\<open>en:a\<close>) has count 2 and id 4
  (\<^verbatim>\<open>en:b\<close>) has count 1. \<^verbatim>\<open>calc_prior\<close> sorts the counts, so that \<^verbatim>\<open>p\<close> is no
  longer indexed by id, and \<^verbatim>\<open>p_src\<close> gives the ids 3 and 4 the same probability.
\<close>

theorem prior_follows_sorted_counts:
  "\<exists>corpus loss_func.
     fst (main_load 2 [[''a'', ''a'', ''b'']] ''en'' [[''x'', ''y'', ''z'']] ''it'') = corpus \<and>
     map_of (freq corpus) 3 = Some 2 \<and> map_of (freq corpus) 4 = Some 1 \<and>
     map_of (vocab_range corpus) ''en'' = Some (3, 5) \<and>
     main_loss_func corpus ''en'' ''it'' = Inr loss_func \<and>
     p_src loss_func = [0, 0, 0, 1/2, 1/2] \<and>
     p_src loss_func ! 3 = p_src loss_func ! 4"
proof -
  from prior_aab obtain a a_trg
    where "calc_prior [(0, 0), (1, 0), (2, 0), (3, 2), (4, 1), (5, 1), (6, 1), (7, 1)]
             [(''en'', 3, 5), (''it'', 5, 8)] ''en'' ''it'' = Inr (a, [0, 0, 0, 1/2, 1/2], a_trg, 5)"
    by blast
  then show ?thesis
    by (simp add: load_aab main_loss_func_def NegativeSamplingLoss_init_def bind_err_def)
qed

section \<open>The distribution loss\<close>

lemma embedding_defined:
  "list_all (\<lambda>i. i < length W) x \<Longrightarrow> embedding W x = Inr (map ((!) W) x)"
  by (simp add: embedding_def)

lemma update_window_defined:
  assumes "list_all (\<lambda>i. i < length (embeddings_x model)) x" "x \<noteq> []"
  shows "\<exists>self'. update_window self model x l = Inr self'"
proof -
  from assms(2) have "0 < length x" by simp
  then have k: "real (scount self l) + real (length x) \<noteq> 0" by linarith
  show ?thesis
    using assms(1) k
    by (simp add: update_window_def embedding_def bind_err_def vdiv_def mdiv_def Let_def)
qed

lemma update_window_fields:
  assumes "update_window self model x l = Inr self'"
  shows "updated self' = (updated self)(l := True)"
    and "lambda_m self' = lambda_m self" and "lambda_v self' = lambda_v self"
    and "scount self' = (scount self)(l := min 100000 (scount self l + length x))"
    and "l' \<noteq> l \<Longrightarrow> m self' l' = m self l'" and "l' \<noteq> l \<Longrightarrow> v self' l' = v self l'"
  using assms
  by (auto simp: update_window_def bind_err_def Let_def split: sum.splits)

text \<open>
  What \<^verbatim>\<open>update_stats\<close> computes on a window, with \<open>agg\<close> the sum of the rows of the
  window and \<open>c\<close> the count before the call: the new mean is \<open>(agg + c m) / (c + N)\<close>, and
  the deviation that enters the covariance is taken from \<open>agg + c m\<close>, the tensor that
  both \<^verbatim>\<open>vec\<close> and \<^verbatim>\<open>new_m\<close> name after the addition in place.
\<close>

lemma update_window_recurrence:
  assumes "update_window self model x l = Inr self'"
    and "embedding (embeddings_x model) x = Inr rows"
  shows "m self' l =
           map (\<lambda>a. a / real (scount self l + length x))
             (vadd (vsum (dim_emb model) rows) (smul (real (scount self l)) (m self l)))"
    and "v self' l =
           map (map (\<lambda>a. a / real (scount self l + length x)))
             (madd (outer (vsub (m self' l)
                            (vadd (vsum (dim_emb model) rows) (smul (real (scount self l)) (m self l))))
                          (vsub (m self' l)
                            (vadd (vsum (dim_emb model) rows) (smul (real (scount self l)) (m self l)))))
                   (msmul (real (scount self l)) (v self l)))"
  using assms
  by (auto simp: update_window_def bind_err_def Let_def vdiv_def mdiv_def split: sum.splits if_splits)

lemma update_stats_one_window:
  "2 \<le> dim_emb model \<Longrightarrow> update_stats self model [w] l = update_window self model w l"
  by (simp add: update_stats_def)

lemma update_stats_batch_raises:
  assumes "2 \<le> dim_emb model" and "2 \<le> length x"
    and "list_all (\<lambda>w. length w \<noteq> 1) x"
    and "list_all (list_all (\<lambda>i. i < length (embeddings_x model))) x"
  shows "update_stats self model x l = Inl RuntimeError"
proof -
  from assms(2) obtain w ws where "x = w # ws" by (cases x) auto
  with assms(3) have "\<not> list_all (\<lambda>w. length w = 1) x" by auto
  with assms(1,2,4) show ?thesis
    by (simp add: update_stats_def embedding2_def bind_err_def)
qed

lemma replicate_two: "replicate 2 x = [x, x]"
  by (simp add: numeral_2_eq_2)

text \<open>
  C4, at a failing input. The table has the single row \<open>[1, 2]\<close> and the batch holds the
  one window \<open>[0, 0]\<close>, so that the aggregate vector is \<open>[2, 4]\<close> and \<open>N = 2\<close>. The first call
  starts from the count 0 and gives the mean \<open>[1, 2]\<close>, the covariance
  \<open>[[1/2, 1], [1, 2]]\<close> and the count 2. The second call gives the mean
  \<open>([2, 4] + 2 [1, 2]) / 4 = [1, 2]\<close>, as the claim says, and the covariance
  \<open>[[5/2, 5], [5, 10]]\<close>: the deviation is taken from \<open>[4, 8]\<close>, the aggregate vector
  after \<^verbatim>\<open>new_m += ...\<close> has changed it in place. With the deviation from the
  aggregate vector \<open>[2, 4]\<close> the recurrence of the claim gives \<open>[[1/2, 1], [1, 2]]\<close>.
\<close>

theorem update_stats_covariance_aliased:
  "(case update_stats (DistributionLoss_init 2 0.2 0.1)
           \<lparr>dim_emb = 2, embeddings_x = [[1, 2]], embeddings_y = [[0, 0]]\<rparr> [[0, 0]] Src of
      Inl e \<Rightarrow> False
    | Inr s1 \<Rightarrow>
        m s1 Src = [1, 2] \<and> v s1 Src = [[1/2, 1], [1, 2]] \<and> scount s1 Src = 2 \<and>
        (case update_stats s1 \<lparr>dim_emb = 2, embeddings_x = [[1, 2]], embeddings_y = [[0, 0]]\<rparr>
                [[0, 0]] Src of
           Inl e \<Rightarrow> False
         | Inr s2 \<Rightarrow>
             m s2 Src = [1, 2] \<and> v s2 Src = [[5/2, 5], [5, 10]] \<and> scount s2 Src = 4 \<and>
             mdiv (madd (outer (vsub (m s2 Src) (vsum 2 [[1, 2], [1, 2]]))
                               (vsub (m s2 Src) (vsum 2 [[1, 2], [1, 2]])))
                        (msmul (real (scount s1 Src)) (v s1 Src)))
                  (real (scount s1 Src + 2)) = Inr [[1/2, 1], [1, 2]]))"
  by (simp add: update_stats_def update_window_def DistributionLoss_init_def embedding_def
      bind_err_def Let_def vdiv_def mdiv_def vsum_def vadd_def vsub_def smul_def outer_def
      madd_def msmul_def replicate_two)

lemma sum_list_squares_nonneg: "0 \<le> (\<Sum>d\<leftarrow>xs. (d :: real) ^ 2)"
  by (induction xs) simp_all

lemma sum_list_sum_list_squares_nonneg: "0 \<le> (\<Sum>row\<leftarrow>xss. \<Sum>d\<leftarrow>row. (d :: real) ^ 2)"
  by (induction xss) (simp_all add: sum_list_squares_nonneg)

lemma sum_list_map_concat: "sum_list (map f (concat xss)) = (\<Sum>row\<leftarrow>xss. sum_list (map f row))"
  by (induction xss) simp_all

text \<open>
  On a batch of one non-empty window of valid ids, \<^verbatim>\<open>DistributionLoss.__call__\<close>
  returns; it first updates the statistics of the language of the call. It returns no
  loss exactly when the other language has never been updated. Otherwise both languages
  are marked as updated and it returns
  \<open>lambda_m * |m_src - m_trg|\<^sup>2 / 2 + lambda_v * |v_src - v_trg|\<^sup>2 / 2\<close> on the updated
  statistics, which is not negative when \<open>lambda_m\<close> and \<open>lambda_v\<close> are not negative.
\<close>

lemma distribution_loss_one_window:
  assumes "list_all (\<lambda>i. i < length (embeddings_x model)) w" and "w \<noteq> []"
    and "2 \<le> dim_emb model"
  shows "\<exists>self' r.
           DistributionLoss_call self model [w] src = Inr (self', r) \<and>
           (r = None \<longleftrightarrow> \<not> updated self (if src then Trg else Src)) \<and>
           (updated self (if src then Trg else Src) \<longrightarrow>
              updated self' Src \<and> updated self' Trg \<and>
              r = Some (lambda_m self * (\<Sum>d\<leftarrow>vsub (m self' Src) (m self' Trg). d ^ 2) / 2 +
                        lambda_v self *
                          (\<Sum>row\<leftarrow>map2 vsub (v self' Src) (v self' Trg). \<Sum>d\<leftarrow>row. d ^ 2) / 2)) \<and>
           (\<forall>loss. r = Some loss \<longrightarrow> 0 \<le> lambda_m self \<longrightarrow> 0 \<le> lambda_v self \<longrightarrow> 0 \<le> loss)"
proof -
  define l where "l = (if src then Src else Trg)"
  define other where "other = (if src then Trg else Src)"
  from update_window_defined [OF assms(1,2)]
  obtain s where w: "update_window self model w l = Inr s"
    by blast
  then have s: "update_stats self model [w] l = Inr s"
    using assms(3) by (simp add: update_stats_one_window)
  note f = update_window_fields [OF w]
  have u: "updated s l" "updated s other = updated self other"
    by (simp_all add: f l_def other_def)
  have both: "(updated s Src \<and> updated s Trg) = updated self other"
    using u by (cases src) (auto simp: l_def other_def)
  define mean_part where "mean_part = (\<Sum>d\<leftarrow>vsub (m s Src) (m s Trg). d ^ 2)"
  define cov_part where "cov_part = (\<Sum>row\<leftarrow>map2 vsub (v s Src) (v s Trg). \<Sum>d\<leftarrow>row. d ^ 2)"
  define r where
    "r = (if updated self other
          then Some (lambda_m self * mean_part / 2 + lambda_v self * cov_part / 2) else None)"
  have c: "DistributionLoss_call self model [w] src = Inr (s, r)"
    using s both
    by (cases src)
       (simp_all add: DistributionLoss_call_def bind_err_def l_def Let_def f r_def mean_part_def
          cov_part_def sum_list_map_concat other_def)
  have nn: "0 \<le> mean_part" "0 \<le> cov_part"
    unfolding mean_part_def cov_part_def
    by (rule sum_list_squares_nonneg, rule sum_list_sum_list_squares_nonneg)
  have pos: "\<forall>loss. r = Some loss \<longrightarrow> 0 \<le> lambda_m self \<longrightarrow> 0 \<le> lambda_v self \<longrightarrow> 0 \<le> loss"
    using nn by (auto simp: r_def split: if_splits)
  have "r = None \<longleftrightarrow> \<not> updated self other" by (simp add: r_def)
  moreover have "updated self other \<longrightarrow>
      updated s Src \<and> updated s Trg \<and>
      r = Some (lambda_m self * mean_part / 2 + lambda_v self * cov_part / 2)"
    using both by (simp add: r_def)
  ultimately show ?thesis
    using c pos unfolding other_def mean_part_def cov_part_def by blast
qed

lemma distribution_loss_one_window_example:
  "\<exists>self' r.
      DistributionLoss_call
        \<lparr>m = (\<lambda>l. [0, 0])(Src := [1, 0]),
         v = (\<lambda>l. [[0, 0], [0, 0]])(Src := [[1/2, 0], [0, 0]]),
         scount = (\<lambda>l. 0)(Src := 2), updated = (\<lambda>l. False)(Src := True),
         lambda_m = 0.2, lambda_v = 0.1\<rparr>
        \<lparr>dim_emb = 2, embeddings_x = [[1, 0], [3, 0]], embeddings_y = [[0, 0], [0, 0]]\<rparr>
        [[1, 1]] False = Inr (self', r) \<and>
      r = Some (6/5) \<and> updated self' Src \<and> updated self' Trg \<and>
      m self' Trg = [3, 0] \<and> v self' Trg = [[9/2, 0], [0, 0]]"
proof -
  let ?M = "\<lparr>dim_emb = 2, embeddings_x = [[1, 0], [3, 0]], embeddings_y = [[0, 0], [0, 0]]\<rparr>"
  let ?S = "\<lparr>m = (\<lambda>l. [0, 0])(Src := [1, 0]),
         v = (\<lambda>l. [[0, 0], [0, 0]])(Src := [[1/2, 0], [0, 0]]),
         scount = (\<lambda>l. 0)(Src := 2), updated = (\<lambda>l. False)(Src := True),
         lambda_m = 0.2, lambda_v = 0.1\<rparr>"
  have a: "list_all (\<lambda>i. i < length (embeddings_x ?M)) [1, 1]" and b: "[1, 1 :: nat] \<noteq> []"
    and d: "2 \<le> dim_emb ?M"
    by simp_all
  have e: "(case DistributionLoss_call ?S ?M [[1, 1]] False of
              Inl e \<Rightarrow> False
            | Inr (s, r) \<Rightarrow> r = Some (6/5) \<and> m s Trg = [3, 0] \<and> v s Trg = [[9/2, 0], [0, 0]])"
    by (simp add: DistributionLoss_call_def update_stats_def update_window_def embedding_def
        bind_err_def Let_def vdiv_def mdiv_def vsum_def vadd_def vsub_def smul_def outer_def
        madd_def msmul_def replicate_two)
  have t: "updated ?S (if False then Trg else Src)" by simp
  from distribution_loss_one_window [OF a b d, of ?S False]
  obtain self' r where c: "DistributionLoss_call ?S ?M [[1, 1]] False = Inr (self', r)"
    and u: "updated ?S (if False then Trg else Src) \<longrightarrow>
              updated self' Src \<and> updated self' Trg \<and>
              r = Some (lambda_m ?S * (\<Sum>d\<leftarrow>vsub (m self' Src) (m self' Trg). d ^ 2) / 2 +
                        lambda_v ?S *
                          (\<Sum>row\<leftarrow>map2 vsub (v self' Src) (v self' Trg). \<Sum>d\<leftarrow>row. d ^ 2) / 2)"
    by blast
  from u t have u': "updated self' Src \<and> updated self' Trg" by blast
  from e c have "r = Some (6/5) \<and> m self' Trg = [3, 0] \<and> v self' Trg = [[9/2, 0], [0, 0]]"
    by simp
  with c u' show ?thesis by blast
qed

text \<open>
  On a batch of two or more windows, none of a single id (and all ids valid), the call raises:
  it returns neither \<open>None\<close> nor a loss.
\<close>

lemma distribution_loss_batch_raises:
  assumes "2 \<le> dim_emb model" and "2 \<le> length x"
    and "list_all (\<lambda>w. length w \<noteq> 1) x"
    and "list_all (list_all (\<lambda>i. i < length (embeddings_x model))) x"
  shows "DistributionLoss_call self model x src = Inl RuntimeError"
  using update_stats_batch_raises [OF assms]
  by (simp add: DistributionLoss_call_def bind_err_def)

text \<open>
  C7, at a failing input. With a window of 2 and a \<^verbatim>\<open>batch_size\<close> of 2, the sentence
  below gives one batch, whose contexts have the shape \<open>(2, 4)\<close>. \<^verbatim>\<open>main\<close> passes them
  to a \<^verbatim>\<open>DistributionLoss\<close> that has not been updated yet, with tables of width
  \<^verbatim>\<open>DIM_EMB\<close>: the call does not return \<open>None\<close>, it raises a \<^verbatim>\<open>RuntimeError\<close>.
\<close>

theorem distribution_loss_raises_on_batch:
  "generate_batch [[1, 3, 4, 5, 6, 2]] 2 2 = [([[1, 3, 5, 6], [3, 4, 6, 2]], [4, 5])] \<and>
   DistributionLoss_call (DistributionLoss_init DIM_EMB 0.2 0.1)
     \<lparr>dim_emb = DIM_EMB, embeddings_x = replicate 7 (replicate DIM_EMB 0),
      embeddings_y = replicate 7 (replicate DIM_EMB 0)\<rparr>
     [[1, 3, 5, 6], [3, 4, 6, 2]] True = Inl RuntimeError"
proof -
  have "generate_batch [[1, 3, 4, 5, 6, 2]] 2 2 = [([[1, 3, 5, 6], [3, 4, 6, 2]], [4, 5])]"
    by code_simp
  moreover have "DistributionLoss_call (DistributionLoss_init DIM_EMB 0.2 0.1)
     \<lparr>dim_emb = DIM_EMB, embeddings_x = replicate 7 (replicate DIM_EMB 0),
      embeddings_y = replicate 7 (replicate DIM_EMB 0)\<rparr>
     [[1, 3, 5, 6], [3, 4, 6, 2]] True = Inl RuntimeError"
    by (rule distribution_loss_batch_raises) (simp_all add: DIM_EMB_def)
  ultimately show ?thesis by simp
qed

section \<open>The seed\<close>

lemma torch_cpu_main_seed: "torch_cpu (main_seed avail cuda seed g) = torch_cpu g"
  by (simp add: main_seed_def Let_def)

lemma length_set_i2w: "length (set_i2w c) = get_vocabsize c"
  by (simp add: set_i2w_def get_vocabsize_def)

lemma main_no_iters_output:
  "main_no_iters draw avail cuda seed window lines_src lang_src lines_trg lang_trg g =
   bind_err (main_loss_func (fst (main_load window lines_src lang_src lines_trg lang_trg)) lang_src lang_trg)
     (\<lambda>loss_func.
        Inr ((length (fst (draw (torch_cpu g)
                (get_vocabsize (fst (main_load window lines_src lang_src lines_trg lang_trg))) DIM_EMB)),
              DIM_EMB),
             zip (set_i2w (fst (main_load window lines_src lang_src lines_trg lang_trg)))
               (fst (draw (torch_cpu g)
                  (get_vocabsize (fst (main_load window lines_src lang_src lines_trg lang_trg))) DIM_EMB))))"
  by (simp add: main_no_iters_def CBOW_init_def Let_def get_embeddings_def save_embeddings_def
      torch_cpu_main_seed split: prod.splits)

text \<open>
  C2, on the code. \<^verbatim>\<open>main\<close> seeds numpy's generator, and the generator of the GPU
  when CUDA is used, but not torch's default generator on the CPU, from which
  \<^verbatim>\<open>nn.Embedding\<close> draws the initial tables (and \<^verbatim>\<open>torch.multinomial\<close> the negative
  samples). With \<^verbatim>\<open>--iter 0\<close> the file written holds the initial context table: two
  runs with the same seed, the same corpora and the same options, started with the
  default generator in two states from which the table drawn differs, write
  different files.
\<close>

theorem same_seed_runs_differ:
  assumes "main_loss_func (fst (main_load window lines_src lang_src lines_trg lang_trg)) lang_src lang_trg =
             Inr loss_func"
    and "length (fst (draw (torch_cpu g1)
           (get_vocabsize (fst (main_load window lines_src lang_src lines_trg lang_trg))) DIM_EMB)) =
         get_vocabsize (fst (main_load window lines_src lang_src lines_trg lang_trg))"
    and "length (fst (draw (torch_cpu g2)
           (get_vocabsize (fst (main_load window lines_src lang_src lines_trg lang_trg))) DIM_EMB)) =
         get_vocabsize (fst (main_load window lines_src lang_src lines_trg lang_trg))"
    and "fst (draw (torch_cpu g1)
           (get_vocabsize (fst (main_load window lines_src lang_src lines_trg lang_trg))) DIM_EMB) \<noteq>
         fst (draw (torch_cpu g2)
           (get_vocabsize (fst (main_load window lines_src lang_src lines_trg lang_trg))) DIM_EMB)"
  shows "main_no_iters draw avail cuda seed window lines_src lang_src lines_trg lang_trg g1 \<noteq>
         main_no_iters draw avail cuda seed window lines_src lang_src lines_trg lang_trg g2"
proof
  define corpus where "corpus = fst (main_load window lines_src lang_src lines_trg lang_trg)"
  define e1 where "e1 = fst (draw (torch_cpu g1) (get_vocabsize corpus) DIM_EMB)"
  define e2 where "e2 = fst (draw (torch_cpu g2) (get_vocabsize corpus) DIM_EMB)"
  assume "main_no_iters draw avail cuda seed window lines_src lang_src lines_trg lang_trg g1 =
          main_no_iters draw avail cuda seed window lines_src lang_src lines_trg lang_trg g2"
  then have z: "zip (set_i2w corpus) e1 = zip (set_i2w corpus) e2"
    using assms(1) by (simp add: main_no_iters_output bind_err_def corpus_def e1_def e2_def)
  have l: "length e1 = length (set_i2w corpus)" "length e2 = length (set_i2w corpus)"
    using assms(2,3) by (simp_all add: length_set_i2w corpus_def e1_def e2_def)
  have "e1 = map snd (zip (set_i2w corpus) e1)" using l(1) by simp
  also have "\<dots> = map snd (zip (set_i2w corpus) e2)" using z by simp
  also have "\<dots> = e2" using l(2) by simp
  finally show False using assms(4) by (simp add: corpus_def e1_def e2_def)
qed

theorem same_seed_runs_differ_witness:
  "main_no_iters (\<lambda>s n d. (replicate n (replicate d (real s)), s + n * d)) False False 42 2
     [[''a'', ''b'', ''c'']] ''en'' [[''x'', ''y'', ''z'']] ''it''
     \<lparr>numpy_random = 0, torch_cpu = 0, torch_cuda = 0\<rparr> \<noteq>
   main_no_iters (\<lambda>s n d. (replicate n (replicate d (real s)), s + n * d)) False False 42 2
     [[''a'', ''b'', ''c'']] ''en'' [[''x'', ''y'', ''z'']] ''it''
     \<lparr>numpy_random = 0, torch_cpu = 1, torch_cuda = 0\<rparr>"
proof -
  have vs: "get_vocabsize (fst (main_load 2 [[''a'', ''b'', ''c'']] ''en'' [[''x'', ''y'', ''z'']] ''it'')) = 9"
    unfolding load_abc by (simp add: get_vocabsize_def)
  show ?thesis
    by (rule same_seed_runs_differ [OF loss_func_abc]) (simp_all add: vs DIM_EMB_def)
qed

end
